theory Spec2Isabelle
  imports Complex_Main "HOL-Library.AList" "HOL-Library.Sublist" "HOL-Library.Log_Nat"
begin

section \<open>Python values\<close>

text \<open>
  The exception classes that the two scripts raise, catch or let through.
  \<open>IOError\<close> is Python's alias of \<open>OSError\<close>; \<open>ProcessLookupError\<close> and
  \<open>PermissionError\<close> are subclasses of \<open>OSError\<close>; \<open>JSONDecodeError\<close> and
  \<open>UnicodeDecodeError\<close> are subclasses of \<open>ValueError\<close>. \<open>KeyboardInterrupt\<close> and
  \<open>SystemExit\<close> derive from \<open>BaseException\<close> only, so \<open>except Exception\<close> lets them
  through while a bare \<open>except:\<close> catches them. \<open>OtherException\<close> stands for any
  other subclass of \<open>Exception\<close> (the errors of the presence library, for instance).
\<close>

datatype exn =
    OSError | ProcessLookupError | PermissionError
  | ValueError | JSONDecodeError | UnicodeDecodeError
  | AttributeError | TypeError | OtherException
  | KeyboardInterrupt | SystemExit int

fun is_OSError :: "exn \<Rightarrow> bool" where
  "is_OSError OSError = True"
| "is_OSError ProcessLookupError = True"
| "is_OSError PermissionError = True"
| "is_OSError _ = False"

fun is_ValueError :: "exn \<Rightarrow> bool" where
  "is_ValueError ValueError = True"
| "is_ValueError JSONDecodeError = True"
| "is_ValueError UnicodeDecodeError = True"
| "is_ValueError _ = False"

fun is_Exception :: "exn \<Rightarrow> bool" where
  "is_Exception KeyboardInterrupt = False"
| "is_Exception (SystemExit _) = False"
| "is_Exception _ = True"

text \<open>
  What \<open>json.loads\<close> returns. A float is the rational number that the double stands
  for; infinities and NaN are outside the model. An object is an association list in
  insertion order, as a Python \<open>dict\<close> is.
\<close>

datatype json =
    JNull | JBool bool | JInt int | JFloat rat | JStr string
  | JArr "json list" | JObj "(string \<times> json) list"

text \<open>Python truthiness, as \<open>if state\<close> and \<open>if not state\<close> test it.\<close>

fun py_truthy :: "json \<Rightarrow> bool" where
  "py_truthy JNull = False"
| "py_truthy (JBool b) = b"
| "py_truthy (JInt i) = (i \<noteq> 0)"
| "py_truthy (JFloat r) = (r \<noteq> 0)"
| "py_truthy (JStr s) = (s \<noteq> [])"
| "py_truthy (JArr xs) = (xs \<noteq> [])"
| "py_truthy (JObj kvs) = (kvs \<noteq> [])"

text \<open>\<open>d.get(k, default)\<close>: only a dict has the method, anything else raises.\<close>

fun py_get :: "json \<Rightarrow> string \<Rightarrow> json \<Rightarrow> exn + json" where
  "py_get (JObj kvs) k d = Inr (case map_of kvs k of None \<Rightarrow> d | Some v \<Rightarrow> v)"
| "py_get _ k d = Inl AttributeError"

section \<open>The files and the processes around the scripts\<close>

text \<open>
  A file of the data directory is described by what reading and decoding it gives:
  it is absent, or it exists and reading it raises (\<open>Broken\<close>: \<open>OSError\<close> when it cannot
  be read, \<open>UnicodeDecodeError\<close> when its bytes are not UTF-8, \<open>JSONDecodeError\<close> or
  \<open>ValueError\<close> when the text does not parse), or it exists and decodes to a value.
  Writing a value and reading it back gives the value: \<open>json.loads (json.dumps v) = v\<close>
  and \<open>int (str n) = n\<close> are taken from the library.
\<close>

datatype 'a stored = Absent | Broken exn | Holds 'a

datatype platform = Win32 | Posix

text \<open>
  One constructor for each \<open>log(...)\<close> call of the functions modelled here, with the
  values it prints.
\<close>

datatype log_msg =
    DaemonStarting | ReceivedShutdown | ConnectedToDiscord | FailedToConnect exn
  | IdleTimeoutReached | SendingToDiscord string json | FailedToUpdate exn
  | DaemonError exn | DaemonStopped | DaemonAlreadyRunning | StartingDaemon string
  | UpdatedActivity json | CouldNotWriteState exn

text \<open>The calls that leave the process, in the order in which they are made.\<close>

datatype event =
    RpcNew | RpcConnect | RpcClear | RpcClose
  | RpcUpdate string json json
  | Sleep nat | SpawnDaemon

record world =
  platform :: platform
  state_file :: "json stored"
  state_write_err :: "exn option"
  pid_file :: "int stored"
  pid_write_err :: "exn option"
  pid_unlink_err :: "exn option"
  log_err :: "exn option"
  log_lines :: "log_msg list"
  kill_probe :: "int \<Rightarrow> exn option"
  tasklist :: "int \<Rightarrow> exn + string"
  spawn_err :: "exn option"
  env_project_dir :: "string option"
  getcwd :: string
  path_name :: "string \<Rightarrow> string"
  getpid :: int
  trace :: "event list"

section \<open>presence.py: log and the State Store\<close>

text \<open>
  \<open>log\<close> creates the data directory and appends a line; it has no handler, so a
  failure of either step is raised to the caller. The time stamp of the line is left out.
\<close>

definition log :: "log_msg \<Rightarrow> world \<Rightarrow> (exn + unit) \<times> world" where
  "log m w =
     (case log_err w of
        Some e \<Rightarrow> (Inl e, w)
      | None \<Rightarrow> (Inr (), w\<lparr>log_lines := log_lines w @ [m]\<rparr>))"

text \<open>
  \<open>read_state\<close>: when the file exists, \<open>json.loads(STATE_FILE.read_text(encoding="utf-8"))\<close>
  inside \<open>try\<close>, with \<open>except (json.JSONDecodeError, IOError): pass\<close>; then \<open>return {}\<close>.
\<close>

definition read_state :: "world \<Rightarrow> (exn + json) \<times> world" where
  "read_state w =
     (case state_file w of
        Absent \<Rightarrow> (Inr (JObj []), w)
      | Holds v \<Rightarrow> (Inr v, w)
      | Broken e \<Rightarrow>
          if e = JSONDecodeError \<or> is_OSError e then (Inr (JObj []), w) else (Inl e, w))"

text \<open>\<open>write_state\<close>: \<open>mkdir\<close> and \<open>write_text\<close>, with no handler.\<close>

definition write_state :: "json \<Rightarrow> world \<Rightarrow> (exn + unit) \<times> world" where
  "write_state st w =
     (case state_write_err w of
        Some e \<Rightarrow> (Inl e, w)
      | None \<Rightarrow> (Inr (), w\<lparr>state_file := Holds st\<rparr>))"

section \<open>statusline.py: log and the State Store\<close>

text \<open>\<open>log\<close> of statusline.py wraps its body in \<open>try\<close> with \<open>except OSError: pass\<close>.\<close>

definition sl_log :: "log_msg \<Rightarrow> world \<Rightarrow> (exn + unit) \<times> world" where
  "sl_log m w =
     (case log_err w of
        Some e \<Rightarrow> if is_OSError e then (Inr (), w) else (Inl e, w)
      | None \<Rightarrow> (Inr (), w\<lparr>log_lines := log_lines w @ [m]\<rparr>))"

definition sl_read_state :: "world \<Rightarrow> (exn + json) \<times> world" where
  "sl_read_state w =
     (case state_file w of
        Absent \<Rightarrow> (Inr (JObj []), w)
      | Holds v \<Rightarrow> (Inr v, w)
      | Broken e \<Rightarrow>
          if e = JSONDecodeError \<or> is_OSError e then (Inr (JObj []), w) else (Inl e, w))"

text \<open>
  \<open>write_state\<close> of statusline.py: the same two steps inside \<open>try\<close>, with
  \<open>except OSError as e: log(...)\<close>.
\<close>

definition sl_write_state :: "json \<Rightarrow> world \<Rightarrow> (exn + unit) \<times> world" where
  "sl_write_state st w =
     (case state_write_err w of
        Some e \<Rightarrow> if is_OSError e then sl_log (CouldNotWriteState e) w else (Inl e, w)
      | None \<Rightarrow> (Inr (), w\<lparr>state_file := Holds st\<rparr>))"

section \<open>presence.py: hook input, the Singleton Guard and the commands\<close>

text \<open>
  Standard input of a command: a terminal, blank text, text on which \<open>sys.stdin.read\<close> or
  \<open>json.loads\<close> raises, or text that parses.
\<close>

datatype stdin = Tty | Blank | Unparsed exn | Parsed json

text \<open>
  \<open>read_hook_input\<close>: the parsed input when standard input is not a terminal and not
  blank; \<open>except (json.JSONDecodeError, IOError): pass\<close>; otherwise \<open>{}\<close>.
\<close>

fun read_hook_input :: "stdin \<Rightarrow> exn + json" where
  "read_hook_input Tty = Inr (JObj [])"
| "read_hook_input Blank = Inr (JObj [])"
| "read_hook_input (Parsed v) = Inr v"
| "read_hook_input (Unparsed e) =
     (if e = JSONDecodeError \<or> is_OSError e then Inr (JObj []) else Inl e)"

text \<open>\<open>str(n)\<close> of an integer: its decimal digits, with a minus sign when negative.\<close>

fun digits :: "nat \<Rightarrow> string" where
  "digits n = (if n < 10 then [''0123456789'' ! n]
               else digits (n div 10) @ [''0123456789'' ! (n mod 10)])"

declare digits.simps [simp del]

definition py_str_int :: "int \<Rightarrow> string" where
  "py_str_int i = (if i < 0 then CHR ''-'' # digits (nat (- i)) else digits (nat i))"

text \<open>
  \<open>get_daemon_pid\<close>. The handler \<open>except (ValueError, ProcessLookupError,
  PermissionError, IOError): pass\<close> covers the read, the conversion and the probe; any
  other exception of the probe leaves the function. On Windows the probe is the output
  of \<open>tasklist\<close>, searched for \<open>str(pid)\<close>; elsewhere it is \<open>os.kill(pid, 0)\<close>.
\<close>

definition pid_handler :: "exn \<Rightarrow> world \<Rightarrow> (exn + int option) \<times> world" where
  "pid_handler e w = (if is_ValueError e \<or> is_OSError e then (Inr None, w) else (Inl e, w))"

definition get_daemon_pid :: "world \<Rightarrow> (exn + int option) \<times> world" where
  "get_daemon_pid w =
     (case pid_file w of
        Absent \<Rightarrow> (Inr None, w)
      | Broken e \<Rightarrow> pid_handler e w
      | Holds pid \<Rightarrow>
          (case platform w of
             Win32 \<Rightarrow>
               (case tasklist w pid of
                  Inl e \<Rightarrow> pid_handler e w
                | Inr out \<Rightarrow>
                    if sublist (py_str_int pid) out then (Inr (Some pid), w) else (Inr None, w))
           | Posix \<Rightarrow>
               (case kill_probe w pid of
                  Some e \<Rightarrow> pid_handler e w
                | None \<Rightarrow> (Inr (Some pid), w))))"

definition write_pid :: "world \<Rightarrow> (exn + unit) \<times> world" where
  "write_pid w =
     (case pid_write_err w of
        Some e \<Rightarrow> (Inl e, w)
      | None \<Rightarrow> (Inr (), w\<lparr>pid_file := Holds (getpid w)\<rparr>))"

text \<open>
  \<open>remove_pid\<close>: \<open>PID_FILE.unlink()\<close> with \<open>except IOError: pass\<close>. Unlinking an absent
  file raises \<open>FileNotFoundError\<close>, an \<open>OSError\<close>, which the handler drops.
\<close>

definition remove_pid :: "world \<Rightarrow> (exn + unit) \<times> world" where
  "remove_pid w =
     (case pid_file w of
        Absent \<Rightarrow> (Inr (), w)
      | _ \<Rightarrow>
          (case pid_unlink_err w of
             Some e \<Rightarrow> if is_OSError e then (Inr (), w) else (Inl e, w)
           | None \<Rightarrow> (Inr (), w\<lparr>pid_file := Absent\<rparr>)))"

text \<open>\<open>Path(p).name\<close> is the library's; the world supplies it as \<open>path_name\<close>.\<close>

definition get_project_name :: "world \<Rightarrow> string" where
  "get_project_name w =
     path_name w (case env_project_dir w of None \<Rightarrow> getcwd w | Some d \<Rightarrow> d)"

text \<open>\<open>int(x)\<close> of a float truncates towards zero.\<close>

definition py_int :: "rat \<Rightarrow> int" where
  "py_int x = (if 0 \<le> x then \<lfloor>x\<rfloor> else \<lceil>x\<rceil>)"

text \<open>\<open>state[k] = v\<close>: only a dict takes a string key.\<close>

fun py_setitem :: "json \<Rightarrow> string \<Rightarrow> json \<Rightarrow> exn + json" where
  "py_setitem (JObj kvs) k v = Inr (JObj (AList.update k v kvs))"
| "py_setitem _ k v = Inl TypeError"

text \<open>
  \<open>cmd_start\<close>, the process that runs the command: the child that \<open>os.fork\<close> or
  \<open>subprocess.Popen\<close> starts is another process and appears as the event \<open>SpawnDaemon\<close>.
  \<open>now\<close> is what \<open>time.time()\<close> returns.
\<close>

definition spawn_daemon :: "world \<Rightarrow> (exn + unit) \<times> world" where
  "spawn_daemon w =
     (let w' = w\<lparr>trace := trace w @ [SpawnDaemon]\<rparr>
      in case spawn_err w of Some e \<Rightarrow> (Inl e, w') | None \<Rightarrow> (Inr (), w'))"

definition start_project_name :: "json \<Rightarrow> world \<Rightarrow> exn + string" where
  "start_project_name project w =
     (if py_truthy project
      then (case project of JStr s \<Rightarrow> Inr (path_name w s) | _ \<Rightarrow> Inl TypeError)
      else Inr (get_project_name w))"

definition start_state :: "json \<Rightarrow> string \<Rightarrow> int \<Rightarrow> exn + json" where
  "start_state state project_name now =
     (case py_get state ''session_start'' JNull of
        Inl e \<Rightarrow> Inl e
      | Inr ss \<Rightarrow>
          (case (if \<not> py_truthy ss then py_setitem state ''session_start'' (JInt now)
                 else Inr state) of
             Inl e \<Rightarrow> Inl e
           | Inr s1 \<Rightarrow>
               (case py_setitem s1 ''project'' (JStr project_name) of
                  Inl e \<Rightarrow> Inl e
                | Inr s2 \<Rightarrow>
                    (case py_setitem s2 ''last_update'' (JInt now) of
                       Inl e \<Rightarrow> Inl e
                     | Inr s3 \<Rightarrow> py_setitem s3 ''tool'' (JStr '''')))))"

definition start_daemon_if_needed :: "string \<Rightarrow> world \<Rightarrow> (exn + unit) \<times> world" where
  "start_daemon_if_needed project_name w =
     (case get_daemon_pid w of
        (Inl e, w1) \<Rightarrow> (Inl e, w1)
      | (Inr p, w1) \<Rightarrow>
          if (case p of None \<Rightarrow> False | Some pid \<Rightarrow> pid \<noteq> 0)
          then log DaemonAlreadyRunning w1
          else (case log (StartingDaemon project_name) w1 of
                  (Inl e, w2) \<Rightarrow> (Inl e, w2)
                | (Inr _, w2) \<Rightarrow> spawn_daemon w2))"

definition cmd_start :: "stdin \<Rightarrow> rat \<Rightarrow> world \<Rightarrow> (exn + unit) \<times> world" where
  "cmd_start inp now w =
     (case read_hook_input inp of
        Inl e \<Rightarrow> (Inl e, w)
      | Inr hook_input \<Rightarrow>
          (case py_get hook_input ''cwd''
                  (JStr (case env_project_dir w of None \<Rightarrow> '''' | Some d \<Rightarrow> d)) of
             Inl e \<Rightarrow> (Inl e, w)
           | Inr project \<Rightarrow>
               (case start_project_name project w of
                  Inl e \<Rightarrow> (Inl e, w)
                | Inr project_name \<Rightarrow>
                    (case read_state w of
                       (Inl e, w1) \<Rightarrow> (Inl e, w1)
                     | (Inr state, w1) \<Rightarrow>
                         (case start_state state project_name (py_int now) of
                            Inl e \<Rightarrow> (Inl e, w1)
                          | Inr state' \<Rightarrow>
                              (case write_state state' w1 of
                                 (Inl e, w2) \<Rightarrow> (Inl e, w2)
                               | (Inr _, w2) \<Rightarrow> start_daemon_if_needed project_name w2))))))"

text \<open>\<open>cmd_update\<close>: an empty state ends the command before anything is written.\<close>

definition cmd_update :: "stdin \<Rightarrow> rat \<Rightarrow> world \<Rightarrow> (exn + unit) \<times> world" where
  "cmd_update inp now w =
     (case read_hook_input inp of
        Inl e \<Rightarrow> (Inl e, w)
      | Inr hook_input \<Rightarrow>
          (case py_get hook_input ''tool_name'' (JStr '''') of
             Inl e \<Rightarrow> (Inl e, w)
           | Inr tool_name \<Rightarrow>
               (case read_state w of
                  (Inl e, w1) \<Rightarrow> (Inl e, w1)
                | (Inr state, w1) \<Rightarrow>
                    if \<not> py_truthy state then (Inr (), w1)
                    else (case py_setitem state ''tool'' tool_name of
                            Inl e \<Rightarrow> (Inl e, w1)
                          | Inr s1 \<Rightarrow>
                              (case py_setitem s1 ''last_update'' (JInt (py_int now)) of
                                 Inl e \<Rightarrow> (Inl e, w1)
                               | Inr s2 \<Rightarrow>
                                   (case write_state s2 w1 of
                                      (Inl e, w2) \<Rightarrow> (Inl e, w2)
                                    | (Inr _, w2) \<Rightarrow> log (UpdatedActivity tool_name) w2))))))"

text \<open>
  The exit status of a script whose command handler returns or raises: \<open>main\<close> calls the
  handler with no \<open>try\<close>, so an exception reaches the interpreter, which prints the
  traceback and exits with status 1; \<open>SystemExit n\<close> exits with \<open>n\<close>.
\<close>

fun exit_status :: "exn + unit \<Rightarrow> int" where
  "exit_status (Inr _) = 0"
| "exit_status (Inl (SystemExit n)) = n"
| "exit_status (Inl KeyboardInterrupt) = 130"
| "exit_status (Inl _) = 1"

section \<open>presence.py: the daemon loop\<close>

definition IDLE_TIMEOUT :: rat where
  "IDLE_TIMEOUT = 15 * 60"

definition TOOL_DISPLAY :: "(string \<times> string) list" where
  "TOOL_DISPLAY =
     [(''Edit'', ''Editing''), (''Write'', ''Writing''), (''Read'', ''Reading''),
      (''Bash'', ''Running command''), (''Glob'', ''Searching files''),
      (''Grep'', ''Searching code''), (''Task'', ''Delegating task''),
      (''WebFetch'', ''Fetching web content''), (''WebSearch'', ''Researching'')]"

text \<open>
  \<open>TOOL_DISPLAY.get(tool, "Working")\<close>: a list or a dict is not hashable and raises
  \<open>TypeError\<close>; any other value that is not a key of the table gives the default.
\<close>

fun tool_details :: "json \<Rightarrow> exn + string" where
  "tool_details (JStr s) = Inr (case map_of TOOL_DISPLAY s of None \<Rightarrow> ''Working'' | Some l \<Rightarrow> l)"
| "tool_details (JArr _) = Inl TypeError"
| "tool_details (JObj _) = Inl TypeError"
| "tool_details _ = Inr ''Working''"

text \<open>
  The number a value stands for in arithmetic and comparison (\<open>bool\<close> is a subclass of
  \<open>int\<close>); \<open>None\<close> for a value that is not a number. Subtraction and comparison of time
  stamps are exact.
\<close>

fun py_num :: "json \<Rightarrow> rat option" where
  "py_num (JInt i) = Some (of_int i)"
| "py_num (JFloat r) = Some r"
| "py_num (JBool b) = Some (if b then 1 else 0)"
| "py_num _ = None"

text \<open>
  Python's \<open>==\<close> on JSON values: numbers by value, strings and \<open>None\<close> by identity of
  value, lists element by element, dicts by equal length and equal values under every
  key.
\<close>

function py_eq :: "json \<Rightarrow> json \<Rightarrow> bool"
  and py_eq_list :: "json list \<Rightarrow> json list \<Rightarrow> bool"
  and py_eq_keys :: "string list \<Rightarrow> (string \<times> json) list \<Rightarrow> (string \<times> json) list \<Rightarrow> bool"
where
  "py_eq JNull b = (b = JNull)"
| "py_eq (JStr s) b = (b = JStr s)"
| "py_eq (JBool x) b = (py_num b = Some (if x then 1 else 0))"
| "py_eq (JInt i) b = (py_num b = Some (of_int i))"
| "py_eq (JFloat r) b = (py_num b = Some r)"
| "py_eq (JArr xs) b = (case b of JArr ys \<Rightarrow> py_eq_list xs ys | _ \<Rightarrow> False)"
| "py_eq (JObj xs) b =
     (case b of JObj ys \<Rightarrow> length xs = length ys \<and> py_eq_keys (map fst xs) xs ys | _ \<Rightarrow> False)"
| "py_eq_list [] ys = (ys = [])"
| "py_eq_list (x # xs) ys = (case ys of [] \<Rightarrow> False | y # ys' \<Rightarrow> py_eq x y \<and> py_eq_list xs ys')"
| "py_eq_keys [] xs ys = True"
| "py_eq_keys (k # ks) xs ys =
     ((case map_of xs k of
         None \<Rightarrow> False
       | Some v \<Rightarrow> (case map_of ys k of None \<Rightarrow> False | Some v' \<Rightarrow> py_eq v v'))
      \<and> py_eq_keys ks xs ys)"
  by pat_completeness auto

lemma size_map_of:
  "map_of xs k = Some v \<Longrightarrow> size v < size_list (size_prod (\<lambda>_. 0) size) xs"
  by (induction xs) (auto split: if_splits)

termination py_eq
  by (relation "measures
        [\<lambda>a. case a of
               Inl (x, _) \<Rightarrow> size x
             | Inr (Inl (xs, _)) \<Rightarrow> size_list size xs
             | Inr (Inr (_, xs, _)) \<Rightarrow> size_list (size_prod (\<lambda>_. 0) size) xs,
         \<lambda>a. case a of
               Inl _ \<Rightarrow> 0
             | Inr (Inl _) \<Rightarrow> 0
             | Inr (Inr (ks, _, _)) \<Rightarrow> length ks]")
    (auto dest: size_map_of)

text \<open>
  The variables of \<open>run_daemon\<close>: whether \<open>rpc\<close> holds a client object (such an object
  is truthy), \<open>connected\<close>, and \<open>last_sent\<close>, which is \<open>{}\<close> (\<open>None\<close> here) or the
  dict of \<open>details\<close> and \<open>project\<close> that was published last.
\<close>

record daemon =
  rpc :: bool
  connected :: bool
  last_sent :: "(string \<times> json) option"

text \<open>
  What a call that leaves the process does: it returns, it raises, or a termination
  signal (SIGTERM or SIGINT) arrives while it runs, and the handler \<open>shutdown\<close> runs
  before the call is over.
\<close>

datatype call_out = Returns | Raises exn | Signal

text \<open>One iteration of the loop: the clock and the outcome of each call it may make.\<close>

record tick_env =
  t_now :: rat
  new_out :: call_out
  connect_out :: call_out
  clear_out :: call_out
  update_out :: call_out
  sleep_out :: call_out
  handler_sleep_out :: call_out

text \<open>
  The handler \<open>shutdown\<close>: \<open>log\<close>, \<open>remove_pid\<close>, \<open>sys.exit(0)\<close>. It always ends in an
  exception, \<open>SystemExit 0\<close> unless a step before fails.
\<close>

definition shutdown :: "world \<Rightarrow> exn \<times> world" where
  "shutdown w =
     (case log ReceivedShutdown w of
        (Inl e, w1) \<Rightarrow> (e, w1)
      | (Inr _, w1) \<Rightarrow>
          (case remove_pid w1 of
             (Inl e, w2) \<Rightarrow> (e, w2)
           | (Inr _, w2) \<Rightarrow> (SystemExit 0, w2)))"

definition call :: "event \<Rightarrow> call_out \<Rightarrow> world \<Rightarrow> (exn + unit) \<times> world" where
  "call ev out w =
     (let w' = w\<lparr>trace := trace w @ [ev]\<rparr>
      in case out of
           Returns \<Rightarrow> (Inr (), w')
         | Raises e \<Rightarrow> (Inl e, w')
         | Signal \<Rightarrow> (case shutdown w' of (e, w'') \<Rightarrow> (Inl e, w'')))"

text \<open>
  \<open>current != last_sent\<close>: \<open>current\<close> has the two keys \<open>details\<close> and \<open>project\<close>, and
  \<open>last_sent\<close> is empty or an earlier \<open>current\<close>.
\<close>

definition payload_differs :: "string \<times> json \<Rightarrow> (string \<times> json) option \<Rightarrow> bool" where
  "payload_differs current ls =
     (case ls of
        None \<Rightarrow> True
      | Some (details, project) \<Rightarrow> \<not> (fst current = details \<and> py_eq (snd current) project))"

text \<open>The handler of the connection attempt: \<open>except Exception as e\<close>, then \<open>continue\<close>.\<close>

definition connect_failed ::
  "exn \<Rightarrow> tick_env \<Rightarrow> daemon \<Rightarrow> world \<Rightarrow> (exn + bool) \<times> daemon \<times> world" where
  "connect_failed e env d w =
     (if is_Exception e
      then (case log (FailedToConnect e) w of
              (Inl e', w1) \<Rightarrow> (Inl e', d, w1)
            | (Inr _, w1) \<Rightarrow>
                (case call (Sleep 5) (sleep_out env) w1 of
                   (Inl e', w2) \<Rightarrow> (Inl e', d, w2)
                 | (Inr _, w2) \<Rightarrow> (Inr False, d, w2)))
      else (Inl e, d, w))"

text \<open>
  \<open>if not connected: ...\<close> The result \<open>Inr True\<close> goes on to read the state,
  \<open>Inr False\<close> is the \<open>continue\<close> of the handler.
\<close>

definition ensure_connected ::
  "tick_env \<Rightarrow> daemon \<Rightarrow> world \<Rightarrow> (exn + bool) \<times> daemon \<times> world" where
  "ensure_connected env d w =
     (if connected d then (Inr True, d, w)
      else (case call RpcNew (new_out env) w of
              (Inl e, w1) \<Rightarrow> connect_failed e env d w1
            | (Inr _, w1) \<Rightarrow>
                (case call RpcConnect (connect_out env) w1 of
                   (Inl e, w2) \<Rightarrow> connect_failed e env (d\<lparr>rpc := True\<rparr>) w2
                 | (Inr _, w2) \<Rightarrow>
                     (case log ConnectedToDiscord w2 of
                        (Inl e, w3) \<Rightarrow>
                          connect_failed e env (d\<lparr>rpc := True, connected := True\<rparr>) w3
                      | (Inr _, w3) \<Rightarrow> (Inr True, d\<lparr>rpc := True, connected := True\<rparr>, w3)))))"

text \<open>\<open>time.sleep(n)\<close> at the end of an iteration.\<close>

definition sleep_end :: "nat \<Rightarrow> tick_env \<Rightarrow> daemon \<Rightarrow> world \<Rightarrow> exn option \<times> daemon \<times> world" where
  "sleep_end n env d w =
     (case call (Sleep n) (sleep_out env) w of
        (Inl e, w1) \<Rightarrow> (Some e, d, w1)
      | (Inr _, w1) \<Rightarrow> (None, d, w1))"

text \<open>
  The idle branch: \<open>log\<close>; \<open>rpc.clear()\<close> under a bare \<open>except\<close>, which drops every
  exception; \<open>write_state({})\<close>; \<open>last_sent = {}\<close>; \<open>time.sleep(5)\<close>.
\<close>

definition idle_clear :: "tick_env \<Rightarrow> daemon \<Rightarrow> world \<Rightarrow> exn option \<times> daemon \<times> world" where
  "idle_clear env d w =
     (case log IdleTimeoutReached w of
        (Inl e, w1) \<Rightarrow> (Some e, d, w1)
      | (Inr _, w1) \<Rightarrow>
          (let w2 = (if rpc d then snd (call RpcClear (clear_out env) w1) else w1)
           in case write_state (JObj []) w2 of
                (Inl e, w3) \<Rightarrow> (Some e, d, w3)
              | (Inr _, w3) \<Rightarrow> sleep_end 5 env (d\<lparr>last_sent := None\<rparr>) w3))"

text \<open>
  The publishing branch. \<open>rpc.update\<close> on \<open>rpc = None\<close> raises \<open>AttributeError\<close>
  without any call. The event records \<open>details\<close>, \<open>project\<close> (the text sent is
  \<open>f"on {project}"\<close>) and \<open>start\<close>.
\<close>

definition send_update ::
  "string \<times> json \<Rightarrow> json \<Rightarrow> tick_env \<Rightarrow> daemon \<Rightarrow> world \<Rightarrow> (exn + unit) \<times> daemon \<times> world" where
  "send_update current session_start env d w =
     (case (if rpc d
            then call (RpcUpdate (fst current) (snd current) session_start) (update_out env) w
            else (Inl AttributeError, w)) of
        (Inr _, w1) \<Rightarrow> (Inr (), d\<lparr>last_sent := Some current\<rparr>, w1)
      | (Inl e, w1) \<Rightarrow>
          if is_Exception e
          then (case log (FailedToUpdate e) w1 of
                  (Inl e', w2) \<Rightarrow> (Inl e', d, w2)
                | (Inr _, w2) \<Rightarrow> (Inr (), d\<lparr>connected := False, rpc := False\<rparr>, w2))
          else (Inl e, d, w1))"

definition publish ::
  "(string \<times> json) list \<Rightarrow> tick_env \<Rightarrow> daemon \<Rightarrow> world \<Rightarrow> exn option \<times> daemon \<times> world" where
  "publish state env d w =
     (let tool = (case map_of state ''tool'' of None \<Rightarrow> JStr '''' | Some v \<Rightarrow> v);
          project = (case map_of state ''project'' of None \<Rightarrow> JStr ''Claude Code'' | Some v \<Rightarrow> v);
          session_start =
            (case map_of state ''session_start'' of
               None \<Rightarrow> JInt (py_int (t_now env)) | Some v \<Rightarrow> v)
      in case tool_details tool of
           Inl e \<Rightarrow> (Some e, d, w)
         | Inr details \<Rightarrow>
             if payload_differs (details, project) (last_sent d)
             then (case log (SendingToDiscord details project) w of
                     (Inl e, w1) \<Rightarrow> (Some e, d, w1)
                   | (Inr _, w1) \<Rightarrow>
                       (case send_update (details, project) session_start env d w1 of
                          (Inl e, d2, w2) \<Rightarrow> (Some e, d2, w2)
                        | (Inr _, d2, w2) \<Rightarrow> sleep_end 1 env d2 w2))
             else sleep_end 1 env d w)"

text \<open>
  From \<open>state = read_state()\<close> to the end of the \<open>try\<close> body. A truthy state that is
  not a dict has no \<open>get\<close>; a \<open>last_update\<close> that is not a number makes the subtraction
  raise \<open>TypeError\<close>.
\<close>

definition poll :: "tick_env \<Rightarrow> daemon \<Rightarrow> world \<Rightarrow> exn option \<times> daemon \<times> world" where
  "poll env d w =
     (case read_state w of
        (Inl e, w1) \<Rightarrow> (Some e, d, w1)
      | (Inr state, w1) \<Rightarrow>
          if \<not> py_truthy state then sleep_end 1 env d w1
          else (case state of
                  JObj kvs \<Rightarrow>
                    (case py_num (case map_of kvs ''last_update'' of None \<Rightarrow> JInt 0 | Some v \<Rightarrow> v) of
                       None \<Rightarrow> (Some TypeError, d, w1)
                     | Some last_update \<Rightarrow>
                         if t_now env - last_update > IDLE_TIMEOUT then idle_clear env d w1
                         else publish kvs env d w1)
                | _ \<Rightarrow> (Some AttributeError, d, w1)))"

definition loop_body :: "tick_env \<Rightarrow> daemon \<Rightarrow> world \<Rightarrow> exn option \<times> daemon \<times> world" where
  "loop_body env d w =
     (case ensure_connected env d w of
        (Inl e, d1, w1) \<Rightarrow> (Some e, d1, w1)
      | (Inr go_on, d1, w1) \<Rightarrow> if go_on then poll env d1 w1 else (None, d1, w1))"

text \<open>
  One iteration with the two outer handlers: \<open>except KeyboardInterrupt: break\<close> and
  \<open>except Exception as e: log(...); time.sleep(5)\<close>. An exception that neither catches,
  \<open>SystemExit\<close>, or one raised inside the second handler, leaves the loop and the function.
\<close>

datatype loop_ctl = Next | Stop | Crash exn

definition tick :: "tick_env \<Rightarrow> daemon \<Rightarrow> world \<Rightarrow> loop_ctl \<times> daemon \<times> world" where
  "tick env d w =
     (case loop_body env d w of
        (None, d1, w1) \<Rightarrow> (Next, d1, w1)
      | (Some e, d1, w1) \<Rightarrow>
          if e = KeyboardInterrupt then (Stop, d1, w1)
          else if is_Exception e
          then (case log (DaemonError e) w1 of
                  (Inl e', w2) \<Rightarrow> (Crash e', d1, w2)
                | (Inr _, w2) \<Rightarrow>
                    (case call (Sleep 5) (handler_sleep_out env) w2 of
                       (Inl e', w3) \<Rightarrow> (Crash e', d1, w3)
                     | (Inr _, w3) \<Rightarrow> (Next, d1, w3)))
          else (Crash e, d1, w1))"

text \<open>
  \<open>while True\<close>, for as many iterations as the list describes; \<open>Next\<close> as result means
  that the loop is still running after them.
\<close>

fun run_loop :: "tick_env list \<Rightarrow> daemon \<Rightarrow> world \<Rightarrow> loop_ctl \<times> daemon \<times> world" where
  "run_loop [] d w = (Next, d, w)"
| "run_loop (env # envs) d w =
     (case tick env d w of
        (Next, d1, w1) \<Rightarrow> run_loop envs d1 w1
      | (Stop, d1, w1) \<Rightarrow> (Stop, d1, w1)
      | (Crash e, d1, w1) \<Rightarrow> (Crash e, d1, w1))"

text \<open>
  The block after the loop: \<open>if rpc:\<close> \<open>rpc.clear(); rpc.close()\<close> under a bare \<open>except\<close>,
  then \<open>log("Daemon stopped")\<close>.
\<close>

definition cleanup :: "call_out \<Rightarrow> call_out \<Rightarrow> daemon \<Rightarrow> world \<Rightarrow> (exn + unit) \<times> world" where
  "cleanup final_clear final_close d w =
     log DaemonStopped
       (if rpc d
        then (case call RpcClear final_clear w of
                (Inl e, w1) \<Rightarrow> w1
              | (Inr _, w1) \<Rightarrow> snd (call RpcClose final_close w1))
        else w)"

text \<open>
  The daemon process: \<open>run_daemon\<close> and then the end of the interpreter, where the
  function registered with \<open>atexit\<close> (\<open>remove_pid\<close>) runs. The result is the exit status,
  or \<open>None\<close> while the loop is still running.
\<close>

definition at_exit :: "exn + unit \<Rightarrow> world \<Rightarrow> int option \<times> world" where
  "at_exit r w = (Some (exit_status r), snd (remove_pid w))"

definition run_daemon ::
  "tick_env list \<Rightarrow> call_out \<Rightarrow> call_out \<Rightarrow> world \<Rightarrow> int option \<times> world" where
  "run_daemon envs final_clear final_close w =
     (case log DaemonStarting w of
        (Inl e, w1) \<Rightarrow> (Some (exit_status (Inl e)), w1)
      | (Inr _, w1) \<Rightarrow>
          (case write_pid w1 of
             (Inl e, w2) \<Rightarrow> (Some (exit_status (Inl e)), w2)
           | (Inr _, w2) \<Rightarrow>
               (case run_loop envs \<lparr>rpc = False, connected = False, last_sent = None\<rparr> w2 of
                  (Next, d, w3) \<Rightarrow> (None, w3)
                | (Stop, d, w3) \<Rightarrow>
                    (case cleanup final_clear final_close d w3 of (r, w4) \<Rightarrow> at_exit r w4)
                | (Crash e, d, w3) \<Rightarrow> at_exit (Inl e) w3)))"

text \<open>Counting the calls made between two worlds of one process.\<close>

definition issued :: "world \<Rightarrow> world \<Rightarrow> event list" where
  "issued w w' = drop (length (trace w)) (trace w')"

fun is_update :: "event \<Rightarrow> bool" where
  "is_update (RpcUpdate _ _ _) = True"
| "is_update _ = False"

definition publishes :: "event list \<Rightarrow> nat" where
  "publishes es = length (filter is_update es)"

section \<open>statusline.py: numbers, formatting and the merge\<close>

text \<open>
  A Python float is a double. \<open>fl x\<close> is the double nearest to the rational \<open>x\<close>: 53
  significant bits, ties to the even significand. The exponent is not bounded, so
  overflow to infinity and subnormal numbers are outside the model. Division of two
  ints and every operation on floats give the correctly rounded result.
\<close>

definition round_half_even :: "rat \<Rightarrow> int" where
  "round_half_even x =
     (let f = \<lfloor>x\<rfloor>; r = x - of_int f
      in if r < 1 / 2 then f else if 1 / 2 < r then f + 1 else if even f then f else f + 1)"

text \<open>\<open>ilog2 x\<close> is the integer \<open>e\<close> with \<open>2 ^ e \<le> x < 2 ^ (e + 1)\<close>, for positive \<open>x\<close>.\<close>

definition ilog2 :: "rat \<Rightarrow> int" where
  "ilog2 x =
     (if 1 \<le> x then int (floorlog 2 (nat \<lfloor>x\<rfloor>)) - 1
      else - int (floorlog 2 (nat (\<lceil>1 / x\<rceil> - 1))))"

definition pow2 :: "int \<Rightarrow> rat" where
  "pow2 e = (if 0 \<le> e then 2 ^ nat e else 1 / 2 ^ nat (- e))"

definition fl :: "rat \<Rightarrow> rat" where
  "fl x =
     (if x = 0 then 0
      else (let e = ilog2 \<bar>x\<bar> - 52; m = round_half_even (\<bar>x\<bar> / pow2 e)
            in sgn x * of_int m * pow2 e))"

text \<open>
  \<open>f"{x:.<d>f}"\<close>: the exact value of the double, rounded half-even to \<open>d\<close> decimals,
  with at least one digit before the point.
\<close>

definition fmt_fixed :: "nat \<Rightarrow> rat \<Rightarrow> string" where
  "fmt_fixed d x =
     (let ds = digits (nat (round_half_even (\<bar>x\<bar> * 10 ^ d)));
          padded = replicate (Suc d - length ds) CHR ''0'' @ ds;
          i = length padded - d
      in (if x < 0 then ''-'' else []) @ take i padded @
         (if d = 0 then [] else CHR ''.'' # drop i padded))"

text \<open>\<open>format_tokens(count: int)\<close>.\<close>

definition format_tokens :: "int \<Rightarrow> string" where
  "format_tokens count =
     (if 1000000 \<le> count then fmt_fixed 1 (fl (of_int count / 1000000)) @ ''M''
      else if 1000 \<le> count then fmt_fixed 1 (fl (of_int count / 1000)) @ ''k''
      else py_str_int count)"

text \<open>The numbers of JSON in arithmetic: \<open>int\<close> (with \<open>bool\<close>) and \<open>float\<close>.\<close>

datatype pynum = PInt int | PFloat rat

fun as_num :: "json \<Rightarrow> pynum option" where
  "as_num (JInt i) = Some (PInt i)"
| "as_num (JBool b) = Some (PInt (if b then 1 else 0))"
| "as_num (JFloat r) = Some (PFloat r)"
| "as_num _ = None"

fun num_val :: "pynum \<Rightarrow> rat" where
  "num_val (PInt i) = of_int i"
| "num_val (PFloat r) = r"

fun to_float :: "pynum \<Rightarrow> rat" where
  "to_float (PInt i) = fl (of_int i)"
| "to_float (PFloat r) = r"

fun json_of_num :: "pynum \<Rightarrow> json" where
  "json_of_num (PInt i) = JInt i"
| "json_of_num (PFloat r) = JFloat r"

fun num_add :: "pynum \<Rightarrow> pynum \<Rightarrow> pynum" where
  "num_add (PInt a) (PInt b) = PInt (a + b)"
| "num_add x y = PFloat (fl (to_float x + to_float y))"

fun num_mul :: "pynum \<Rightarrow> pynum \<Rightarrow> pynum" where
  "num_mul (PInt a) (PInt b) = PInt (a * b)"
| "num_mul x y = PFloat (fl (to_float x * to_float y))"

text \<open>\<open>x / y\<close> for a divisor that is not zero.\<close>

fun num_truediv :: "pynum \<Rightarrow> pynum \<Rightarrow> pynum" where
  "num_truediv (PInt a) (PInt b) = PFloat (fl (of_int a / of_int b))"
| "num_truediv x y = PFloat (fl (to_float x / to_float y))"

text \<open>
  The expression of \<open>main\<close> for \<open>cost_str\<close>: \<open>f"${total_cost:.2f}"\<close> if
  \<open>total_cost >= 0.01\<close>, else \<open>f"${total_cost:.3f}"\<close>. The literal \<open>0.01\<close> is the double
  \<open>fl (1 / 100)\<close>; a value that is not a number makes the comparison raise \<open>TypeError\<close>.
\<close>

definition cost_str :: "json \<Rightarrow> exn + string" where
  "cost_str total_cost =
     (case as_num total_cost of
        None \<Rightarrow> Inl TypeError
      | Some c \<Rightarrow>
          Inr (CHR ''$'' # fmt_fixed (if fl (1 / 100) \<le> num_val c then 2 else 3) (to_float c)))"

text \<open>
  The line that \<open>main\<close> prints (lines 130 to 140), for a model name that is a string
  and a token total that is an int.
\<close>

definition status_line :: "string \<Rightarrow> int \<Rightarrow> json \<Rightarrow> exn + string" where
  "status_line model_display total_tokens total_cost =
     (if 0 < total_tokens
      then (case cost_str total_cost of
              Inl e \<Rightarrow> Inl e
            | Inr c \<Rightarrow>
                Inr (''['' @ model_display @ ''] '' @ format_tokens total_tokens @ '' | '' @ c))
      else if model_display \<noteq> [] then Inr (''['' @ model_display @ '']'')
      else Inr [])"

text \<open>
  Lines 100 to 104 of \<open>main\<close>: \<open>total_input + total_output\<close>, then
  \<open>(total_input * 4 + total_output * 12) / 1_000_000\<close>. Two numbers give a float. Any
  other pair of JSON values raises \<open>TypeError\<close> in one of the two lines (strings and
  lists can be added and repeated, but not divided), before the state is read.
\<close>

definition simple_cost :: "json \<Rightarrow> json \<Rightarrow> exn + json" where
  "simple_cost total_input total_output =
     (case (as_num total_input, as_num total_output) of
        (Some a, Some b) \<Rightarrow>
          Inr (json_of_num
                 (num_truediv (num_add (num_mul a (PInt 4)) (num_mul b (PInt 12)))
                    (PInt 1000000)))
      | _ \<Rightarrow> Inl TypeError)"

text \<open>
  The values that \<open>main\<close> takes from its input (lines 81 to 98); \<open>and_then\<close> passes
  the first exception on.
\<close>

record sl_input =
  in_model :: json
  in_model_id :: json
  in_cost :: json
  in_input :: json
  in_output :: json
  in_cache_read :: json
  in_cache_write :: json

definition and_then :: "exn + 'a \<Rightarrow> ('a \<Rightarrow> exn + 'b) \<Rightarrow> exn + 'b" where
  "and_then r f = (case r of Inl e \<Rightarrow> Inl e | Inr x \<Rightarrow> f x)"

definition sl_extract :: "json \<Rightarrow> exn + sl_input" where
  "sl_extract data =
     and_then (py_get data ''model'' (JObj [])) (\<lambda>model_info.
     and_then (py_get model_info ''display_name'' (JStr [])) (\<lambda>model_display.
     and_then (py_get model_info ''id'' (JStr [])) (\<lambda>model_id.
     and_then (py_get data ''cost'' (JObj [])) (\<lambda>cost_info.
     and_then (py_get cost_info ''total_cost_usd'' (JFloat 0)) (\<lambda>total_cost.
     and_then (py_get data ''context_window'' (JObj [])) (\<lambda>context.
     and_then (py_get context ''total_input_tokens'' (JInt 0)) (\<lambda>total_input.
     and_then (py_get context ''total_output_tokens'' (JInt 0)) (\<lambda>total_output.
     and_then (py_get context ''current_usage'' JNull) (\<lambda>cu.
     and_then (py_get (if py_truthy cu then cu else JObj [])
                 ''cache_read_input_tokens'' (JInt 0)) (\<lambda>cache_read.
     and_then (py_get (if py_truthy cu then cu else JObj [])
                 ''cache_creation_input_tokens'' (JInt 0)) (\<lambda>cache_write.
       Inr \<lparr> in_model = model_display, in_model_id = model_id, in_cost = total_cost,
             in_input = total_input, in_output = total_output,
             in_cache_read = cache_read, in_cache_write = cache_write \<rparr>)))))))))))"

text \<open>Lines 109 to 126: the assignments to \<open>state\<close>.\<close>

definition sl_merge :: "sl_input \<Rightarrow> json \<Rightarrow> int \<Rightarrow> json \<Rightarrow> exn + json" where
  "sl_merge f sc t state =
     (case (if py_truthy (in_model f) then py_setitem state ''model'' (in_model f)
            else Inr state) of Inl e \<Rightarrow> Inl e | Inr s1 \<Rightarrow>
      case (if py_truthy (in_model_id f) then py_setitem s1 ''model_id'' (in_model_id f)
            else Inr s1) of Inl e \<Rightarrow> Inl e | Inr s2 \<Rightarrow>
      case py_setitem s2 ''tokens''
             (JObj [(''input'', in_input f), (''output'', in_output f),
                    (''cache_read'', in_cache_read f), (''cache_write'', in_cache_write f),
                    (''cost'', in_cost f), (''simple_cost'', sc)]) of Inl e \<Rightarrow> Inl e | Inr s3 \<Rightarrow>
      py_setitem s3 ''statusline_update'' (JInt t))"

text \<open>
  \<open>main\<close> up to \<open>write_state(state)\<close> (line 128); nothing after that line touches a
  file. The first argument is what \<open>json.load(sys.stdin)\<close> gives, \<open>now\<close> is
  \<open>datetime.now().timestamp()\<close>.
\<close>

definition sl_main :: "exn + json \<Rightarrow> rat \<Rightarrow> world \<Rightarrow> (exn + unit) \<times> world" where
  "sl_main inp now w =
     (case inp of
        Inl e \<Rightarrow> (if is_ValueError e then Inr () else Inl e, w)
      | Inr data \<Rightarrow>
          (case sl_extract data of
             Inl e \<Rightarrow> (Inl e, w)
           | Inr f \<Rightarrow>
               (case simple_cost (in_input f) (in_output f) of
                  Inl e \<Rightarrow> (Inl e, w)
                | Inr sc \<Rightarrow>
                    (case sl_read_state w of
                       (Inl e, w1) \<Rightarrow> (Inl e, w1)
                     | (Inr state, w1) \<Rightarrow>
                         if py_truthy state
                         then (case sl_merge f sc (py_int now) state of
                                 Inl e \<Rightarrow> (Inl e, w1)
                               | Inr state' \<Rightarrow> sl_write_state state' w1)
                         else (Inr (), w1)))))"

section \<open>Notions used to state the properties\<close>




text \<open>
  What the platform probe says about a process id: verified alive, or reported as not
  existing (\<open>ProcessLookupError\<close> from \<open>os.kill\<close>; a \<open>tasklist\<close> output without the id).
\<close>

definition verified_alive :: "world \<Rightarrow> int \<Rightarrow> bool" where
  "verified_alive w pid =
     (case platform w of
        Posix \<Rightarrow> kill_probe w pid = None
      | Win32 \<Rightarrow> (case tasklist w pid of Inl e \<Rightarrow> False | Inr out \<Rightarrow> sublist (py_str_int pid) out))"

definition reported_dead :: "world \<Rightarrow> int \<Rightarrow> bool" where
  "reported_dead w pid =
     (case platform w of
        Posix \<Rightarrow> kill_probe w pid = Some ProcessLookupError
      | Win32 \<Rightarrow> (case tasklist w pid of Inl e \<Rightarrow> False | Inr out \<Rightarrow> \<not> sublist (py_str_int pid) out))"

text \<open>
  Commands run one after the other, each in a process of its own: whatever one of them
  returns or raises, the next one starts from the files it left.
\<close>

datatype command = Start stdin rat | Update stdin rat

fun run_command :: "command \<Rightarrow> world \<Rightarrow> world" where
  "run_command (Start inp now) w = snd (cmd_start inp now w)"
| "run_command (Update inp now) w = snd (cmd_update inp now w)"

definition run_commands :: "command list \<Rightarrow> world \<Rightarrow> world" where
  "run_commands cs w = fold run_command cs w"

text \<open>
  Hook input that \<open>start\<close> accepts: a JSON object whose \<open>cwd\<close>, when present and
  truthy, is a string. Hook input that \<open>update\<close> accepts: a JSON object; \<open>tool_name_of\<close>
  is the tool name it carries.
\<close>

definition start_input :: "stdin \<Rightarrow> bool" where
  "start_input inp =
     (case read_hook_input inp of
        Inr (JObj h) \<Rightarrow>
          (case map_of h ''cwd'' of
             None \<Rightarrow> True
           | Some (JStr s) \<Rightarrow> True
           | Some p \<Rightarrow> \<not> py_truthy p)
      | _ \<Rightarrow> False)"

definition update_input :: "stdin \<Rightarrow> bool" where
  "update_input inp = (case read_hook_input inp of Inr (JObj h) \<Rightarrow> True | _ \<Rightarrow> False)"

definition tool_name_of :: "stdin \<Rightarrow> json" where
  "tool_name_of inp =
     (case read_hook_input inp of
        Inr (JObj h) \<Rightarrow> (case map_of h ''tool_name'' of None \<Rightarrow> JStr '''' | Some v \<Rightarrow> v)
      | _ \<Rightarrow> JStr '''')"

text \<open>An active session that began at \<open>t\<close>, in a store that can be written.\<close>

definition session_since :: "int \<Rightarrow> world \<Rightarrow> bool" where
  "session_since t w =
     (state_write_err w = None \<and>
      (\<exists>kvs. state_file w = Holds (JObj kvs) \<and> map_of kvs ''session_start'' = Some (JInt t)))"

text \<open>Replacing the content of the state file, everything else unchanged.\<close>

definition put_state :: "json stored \<Rightarrow> world \<Rightarrow> world" where
  "put_state X w = w\<lparr>state_file := X\<rparr>"

section \<open>Concrete worlds\<close>

text \<open>
  \<open>Path(p).name\<close> on a POSIX system: the last component of the path, where empty
  components and \<open>.\<close> do not count; the empty string when there is none.
\<close>

fun split_on :: "char \<Rightarrow> string \<Rightarrow> string list" where
  "split_on c [] = [[]]"
| "split_on c (x # xs) =
     (if x = c then [] # split_on c xs
      else (case split_on c xs of [] \<Rightarrow> [[x]] | p # ps \<Rightarrow> (x # p) # ps))"

definition posix_name :: "string \<Rightarrow> string" where
  "posix_name p =
     (case filter (\<lambda>s. s \<noteq> [] \<and> s \<noteq> ''.'') (split_on CHR ''/'' p) of
        [] \<Rightarrow> []
      | q # qs \<Rightarrow> last (q # qs))"

text \<open>
  A POSIX machine on which nothing has been written yet, every file operation succeeds
  and no process answers the probe.
\<close>

definition world0 :: world where
  "world0 =
     \<lparr> platform = Posix, state_file = Absent, state_write_err = None,
       pid_file = Absent, pid_write_err = None, pid_unlink_err = None,
       log_err = None, log_lines = [],
       kill_probe = (\<lambda>_. Some ProcessLookupError),
       tasklist = (\<lambda>_. Inr ''INFO: No tasks are running which match the specified criteria.''),
       spawn_err = None, env_project_dir = None, getcwd = ''/home/u/myproj'',
       path_name = posix_name, getpid = 4242, trace = [] \<rparr>"

text \<open>A session as \<open>start\<close> and \<open>update\<close> leave it.\<close>

definition session0 :: json where
  "session0 =
     JObj [(''session_start'', JInt 1700000000), (''project'', JStr ''myproj''),
           (''last_update'', JInt 1700000100), (''tool'', JStr ''Edit'')]"


definition env0 :: "rat \<Rightarrow> tick_env" where
  "env0 t =
     \<lparr> t_now = t, new_out = Returns, connect_out = Returns, clear_out = Returns,
       update_out = Returns, sleep_out = Returns, handler_sleep_out = Returns \<rparr>"





section \<open>Properties\<close>

subsection \<open>The State Store\<close>

lemma read_state_tolerant:
  "state_file w = Absent \<or> state_file w = Broken JSONDecodeError \<or>
   (\<exists>e. is_OSError e \<and> state_file w = Broken e) \<Longrightarrow> read_state w = (Inr (JObj []), w)"
  by (auto simp: read_state_def)

lemma read_state_holds: "state_file w = Holds v \<Longrightarrow> read_state w = (Inr v, w)"
  by (simp add: read_state_def)

lemma read_state_frame: "snd (read_state w) = w"
  by (simp add: read_state_def split: stored.splits)

text \<open>
  Claim C8 says that \<open>read_state\<close> returns the empty record and never raises for a
  missing file, an unreadable file and content that does not parse as JSON. The three
  lemmas above give this for a missing file, for \<open>OSError\<close> and for \<open>JSONDecodeError\<close>,
  and give the stored record for a file that parses. The handler names
  \<open>json.JSONDecodeError\<close> and \<open>IOError\<close> only: a state file whose bytes are not UTF-8
  makes \<open>read_text(encoding="utf-8")\<close> raise \<open>UnicodeDecodeError\<close>, a \<open>ValueError\<close> that is
  neither, and \<open>read_state\<close> raises it, in presence.py and in statusline.py alike.
\<close>

theorem read_state_undecodable_raises:
  "fst (read_state (w\<lparr>state_file := Broken UnicodeDecodeError\<rparr>)) = Inl UnicodeDecodeError \<and>
   fst (sl_read_state (w\<lparr>state_file := Broken UnicodeDecodeError\<rparr>)) = Inl UnicodeDecodeError"
  by (simp add: read_state_def sl_read_state_def)

text \<open>
  Claim C2 says that \<open>write_state\<close> does not propagate a failing write and that the
  calling command does not exit nonzero. \<open>write_state\<close> of presence.py has no handler:
  with a store that cannot be written it raises \<open>OSError\<close>, \<open>cmd_update\<close> on an active
  session lets it through and the script exits with status 1. \<open>write_state\<close> of
  statusline.py, on the same store, catches the error, logs it and returns.
\<close>

theorem write_state_failure_exits_nonzero:
  "fst (write_state st (w\<lparr>state_write_err := Some OSError\<rparr>)) = Inl OSError \<and>
   exit_status (fst (cmd_update (Parsed (JObj [(''tool_name'', JStr ''Edit'')])) 1700000200
      (world0\<lparr>state_file := Holds session0, state_write_err := Some OSError\<rparr>))) = 1 \<and>
   fst (sl_write_state session0 (world0\<lparr>state_write_err := Some OSError\<rparr>)) = Inr ()"
  by (simp add: write_state_def cmd_update_def read_state_def world0_def session0_def
      sl_write_state_def sl_log_def)

subsection \<open>The commands\<close>

text \<open>
  Claim C6: an \<open>update\<close> command that finds the Session State empty changes nothing, whatever
  its input is: the world after the command (state file, PID file, log, calls made) is the
  world before it, so the state is still empty and no session exists; and when the hook
  input is a JSON object, whatever \<open>tool_name\<close> it carries, the command returns normally.
\<close>

theorem update_on_empty_state_is_noop:
  "fst (read_state w) = Inr st \<Longrightarrow> \<not> py_truthy st \<Longrightarrow>
   snd (cmd_update inp now w) = w \<and>
   (\<forall>h. read_hook_input inp = Inr (JObj h) \<longrightarrow> cmd_update inp now w = (Inr (), w))"
  by (auto simp: cmd_update_def read_state_def
      split: sum.splits stored.splits if_splits prod.splits)

theorem update_on_empty_state_is_noop_witness:
  "fst (read_state world0) = Inr (JObj []) \<and> \<not> py_truthy (JObj []) \<and>
   read_hook_input (Parsed (JObj [(''tool_name'', JStr ''Edit'')])) =
     Inr (JObj [(''tool_name'', JStr ''Edit'')]) \<and>
   cmd_update (Parsed (JObj [(''tool_name'', JStr ''Edit'')])) 1700000200 world0 = (Inr (), world0)"
  using update_on_empty_state_is_noop [of world0 "JObj []"
      "Parsed (JObj [(''tool_name'', JStr ''Edit'')])" 1700000200]
  by (simp add: read_state_def world0_def)

subsection \<open>The Singleton Guard\<close>

text \<open>
  Claim C7: \<open>get_daemon_pid\<close> returns a process id only when the PID file exists, holds
  an integer and the platform probe verifies that process alive; it returns \<open>None\<close> when
  the file is absent, when it cannot be read or does not hold an integer, and when the
  probe reports the process as not existing; and it leaves every file as it was, the
  stale PID file included.
\<close>

theorem get_daemon_pid_liveness:
  "snd (get_daemon_pid w) = w \<and>
   (\<forall>pid. fst (get_daemon_pid w) = Inr (Some pid) \<longrightarrow>
      pid_file w = Holds pid \<and> verified_alive w pid) \<and>
   (pid_file w = Absent \<longrightarrow> fst (get_daemon_pid w) = Inr None) \<and>
   (\<forall>e. pid_file w = Broken e \<and> (is_ValueError e \<or> is_OSError e) \<longrightarrow>
      fst (get_daemon_pid w) = Inr None) \<and>
   (\<forall>pid. pid_file w = Holds pid \<and> reported_dead w pid \<longrightarrow>
      fst (get_daemon_pid w) = Inr None)"
  by (auto simp: get_daemon_pid_def pid_handler_def verified_alive_def reported_dead_def
      split: stored.splits platform.splits sum.splits option.splits if_splits)

theorem get_daemon_pid_liveness_witness:
  "fst (get_daemon_pid (world0\<lparr>pid_file := Holds 4242, kill_probe := (\<lambda>_. None)\<rparr>)) = Inr (Some 4242) \<and>
   verified_alive (world0\<lparr>pid_file := Holds 4242, kill_probe := (\<lambda>_. None)\<rparr>) 4242 \<and>
   pid_file world0 = Absent \<and> fst (get_daemon_pid world0) = Inr None \<and>
   is_ValueError ValueError \<and>
   fst (get_daemon_pid (world0\<lparr>pid_file := Broken ValueError\<rparr>)) = Inr None \<and>
   reported_dead (world0\<lparr>pid_file := Holds 4242\<rparr>) 4242 \<and>
   fst (get_daemon_pid (world0\<lparr>pid_file := Holds 4242\<rparr>)) = Inr None \<and>
   snd (get_daemon_pid (world0\<lparr>pid_file := Holds 4242\<rparr>)) = world0\<lparr>pid_file := Holds 4242\<rparr>"
  using get_daemon_pid_liveness [of "world0\<lparr>pid_file := Holds 4242, kill_probe := (\<lambda>_. None)\<rparr>"]
    get_daemon_pid_liveness [of world0]
    get_daemon_pid_liveness [of "world0\<lparr>pid_file := Broken ValueError\<rparr>"]
    get_daemon_pid_liveness [of "world0\<lparr>pid_file := Holds 4242\<rparr>"]
  by (simp add: world0_def get_daemon_pid_def verified_alive_def reported_dead_def pid_handler_def)

text \<open>The Windows probe finds the id in the output of \<open>tasklist\<close>.\<close>

lemma sublist_tasklist_line: "sublist ''4242'' ''python.exe  4242 Console''"
  by code_simp

lemma get_daemon_pid_win32:
  "fst (get_daemon_pid (world0\<lparr>platform := Win32, pid_file := Holds 4242,
      tasklist := (\<lambda>_. Inr ''python.exe  4242 Console'')\<rparr>)) = Inr (Some 4242)"
  by (simp add: world0_def get_daemon_pid_def py_str_int_def digits.simps sublist_tasklist_line)

subsection \<open>The daemon loop: what a call and a tick leave unchanged\<close>






subsection \<open>Idle timeout\<close>





subsection \<open>Shutdown\<close>

lemmas daemon_defs =
  run_daemon_def run_loop.simps tick_def loop_body_def ensure_connected_def connect_failed_def
  poll_def publish_def send_update_def idle_clear_def sleep_end_def call_def shutdown_def
  cleanup_def at_exit_def log_def write_pid_def remove_pid_def read_state_def write_state_def
  payload_differs_def TOOL_DISPLAY_def IDLE_TIMEOUT_def py_int_def Let_def

text \<open>
  Claim C1 says that on SIGTERM or SIGINT the daemon removes the PID record, tells the
  service to clear the presence, closes the connection and exits. A daemon starts,
  connects and publishes \<open>session0\<close>; the signal arrives during the \<open>time.sleep(1)\<close> that
  ends the iteration. The handler logs, removes the PID file and calls \<open>sys.exit(0)\<close>;
  \<open>SystemExit\<close> passes \<open>except KeyboardInterrupt\<close> and \<open>except Exception\<close> and leaves
  \<open>run_daemon\<close>, so the block after the loop does not run: the process exits with status
  0 and no \<open>rpc.clear()\<close> or \<open>rpc.close()\<close> has been called. The second half is the same
  run with \<open>KeyboardInterrupt\<close> raised by the sleep: the loop breaks and the block after
  it calls both.
\<close>

theorem signal_skips_cleanup:
  "(case run_daemon [(env0 1700000150)\<lparr>sleep_out := Signal\<rparr>] Returns Returns
          (world0\<lparr>state_file := Holds session0\<rparr>) of
      (status, w) \<Rightarrow>
        status = Some 0 \<and> pid_file w = Absent \<and>
        trace w = [RpcNew, RpcConnect,
                   RpcUpdate ''Editing'' (JStr ''myproj'') (JInt 1700000000), Sleep 1]) \<and>
   (case run_daemon [(env0 1700000150)\<lparr>sleep_out := Raises KeyboardInterrupt\<rparr>]
          Returns Returns (world0\<lparr>state_file := Holds session0\<rparr>) of
      (status, w) \<Rightarrow>
        status = Some 0 \<and> pid_file w = Absent \<and>
        trace w = [RpcNew, RpcConnect,
                   RpcUpdate ''Editing'' (JStr ''myproj'') (JInt 1700000000), Sleep 1,
                   RpcClear, RpcClose])"
  by (simp add: daemon_defs world0_def session0_def env0_def)

subsection \<open>Sequences of commands\<close>

lemma start_daemon_frame:
  "start_daemon_if_needed p w = (r, w') \<Longrightarrow>
   state_file w' = state_file w \<and> state_write_err w' = state_write_err w"
  by (auto simp: start_daemon_if_needed_def get_daemon_pid_def pid_handler_def log_def
      spawn_daemon_def Let_def
      split: stored.splits platform.splits sum.splits option.splits if_splits prod.splits)

lemma start_input_name:
  assumes "start_input inp"
  obtains h n where "read_hook_input inp = Inr (JObj h)"
    and "start_project_name (case map_of h ''cwd'' of None \<Rightarrow> JStr e | Some v \<Rightarrow> v) w = Inr n"
proof -
  from assms obtain h where h: "read_hook_input inp = Inr (JObj h)"
    and c: "case map_of h ''cwd'' of None \<Rightarrow> True | Some (JStr s) \<Rightarrow> True | Some p \<Rightarrow> \<not> py_truthy p"
    by (auto simp: start_input_def split: sum.splits json.splits)
  from c have "\<exists>n. start_project_name (case map_of h ''cwd'' of None \<Rightarrow> JStr e | Some v \<Rightarrow> v) w = Inr n"
    by (auto simp: start_project_name_def split: option.splits json.splits)
  with h that show thesis by blast
qed

lemma read_state_pair: "fst (read_state w) = Inr st \<Longrightarrow> read_state w = (Inr st, w)"
  by (metis read_state_frame prod.collapse)

lemma cmd_start_state:
  assumes "start_input inp" "state_write_err w = None" "fst (read_state w) = Inr (JObj kvs)"
    and "cmd_start inp now w = (r, w')"
  shows "\<exists>kvs'. state_file w' = Holds (JObj kvs') \<and> state_write_err w' = None \<and>
           map_of kvs' ''session_start'' =
             (case map_of kvs ''session_start'' of
                None \<Rightarrow> Some (JInt (py_int now))
              | Some v \<Rightarrow> if py_truthy v then Some v else Some (JInt (py_int now)))"
proof -
  obtain h n where h: "read_hook_input inp = Inr (JObj h)"
    "start_project_name (case map_of h ''cwd'' of None \<Rightarrow>
        JStr (case env_project_dir w of None \<Rightarrow> '''' | Some d \<Rightarrow> d) | Some v \<Rightarrow> v) w = Inr n"
    using start_input_name [OF assms(1)] by metis
  note rs = read_state_pair [OF assms(3)]
  from assms(2,4) h rs show ?thesis
    by (auto simp: cmd_start_def start_state_def write_state_def update_conv'
        dest!: start_daemon_frame split: option.splits if_splits)
qed

lemma cmd_update_state:
  assumes "update_input inp" "state_write_err w = None"
    and "state_file w = Holds (JObj kvs)" "map_of kvs ''session_start'' = Some ss"
    and "cmd_update inp now w = (r, w')"
  shows "\<exists>kvs'. state_file w' = Holds (JObj kvs') \<and> state_write_err w' = None \<and>
           map_of kvs' ''session_start'' = Some ss \<and>
           map_of kvs' ''tool'' = Some (tool_name_of inp)"
proof -
  from assms(1) obtain h where h: "read_hook_input inp = Inr (JObj h)"
    by (auto simp: update_input_def split: sum.splits json.splits)
  from assms(4) have ne: "kvs \<noteq> []" by auto
  from assms h ne show ?thesis
    by (auto simp: cmd_update_def read_state_def write_state_def log_def update_conv'
        tool_name_of_def split: option.splits if_splits)
qed


lemma first_start:
  assumes "start_input inp" "state_write_err w = None" "fst (read_state w) = Inr (JObj [])"
  shows "session_since (py_int now) (run_command (Start inp now) w)"
proof -
  obtain r w' where c: "cmd_start inp now w = (r, w')" by fastforce
  from cmd_start_state [OF assms c] c show ?thesis
    by (auto simp: session_since_def)
qed

lemma later_start:
  assumes "start_input inp" "session_since t w" "t \<noteq> 0"
  shows "session_since t (run_command (Start inp now) w)"
proof -
  from assms(2) obtain kvs where k: "state_write_err w = None" "state_file w = Holds (JObj kvs)"
    "map_of kvs ''session_start'' = Some (JInt t)"
    by (auto simp: session_since_def)
  obtain r w' where c: "cmd_start inp now w = (r, w')" by fastforce
  from k(2) have rs: "fst (read_state w) = Inr (JObj kvs)" by (simp add: read_state_def)
  from cmd_start_state [OF assms(1) k(1) rs c] c k(3) assms(3) show ?thesis
    by (auto simp: session_since_def)
qed

lemma an_update:
  assumes "update_input inp" "session_since t w"
  shows "session_since t (run_command (Update inp now) w) \<and>
         (\<exists>kvs. state_file (run_command (Update inp now) w) = Holds (JObj kvs) \<and>
            map_of kvs ''tool'' = Some (tool_name_of inp) \<and>
            map_of kvs ''session_start'' = Some (JInt t))"
proof -
  from assms(2) obtain kvs where k: "state_write_err w = None" "state_file w = Holds (JObj kvs)"
    "map_of kvs ''session_start'' = Some (JInt t)"
    by (auto simp: session_since_def)
  obtain r w' where c: "cmd_update inp now w = (r, w')" by fastforce
  from cmd_update_state [OF assms(1) k c] c show ?thesis
    by (auto simp: session_since_def)
qed

lemma later_starts:
  "session_since t w \<Longrightarrow> t \<noteq> 0 \<Longrightarrow> \<forall>c \<in> set ss. start_input (fst c) \<Longrightarrow>
   session_since t (fold run_command (map (\<lambda>(i, t). Start i t) ss) w)"
  by (induction ss arbitrary: w) (auto simp: later_start simp del: run_command.simps)

lemma updates_keep:
  "session_since t w \<Longrightarrow> \<forall>c \<in> set us. update_input (fst c) \<Longrightarrow>
   session_since t (fold run_command (map (\<lambda>(i, t). Update i t) us) w)"
  by (induction us arbitrary: w) (auto simp: an_update simp del: run_command.simps)

text \<open>
  Claim C5: the state is empty and the store can be written; one or more \<open>start\<close>
  commands run, then one or more \<open>update\<close> commands, each with hook input it accepts,
  and the clock of the first \<open>start\<close> is not within the first second of the epoch
  (\<open>int(time.time())\<close> is not 0). Then the state file holds a record whose \<open>tool\<close> is the
  tool name of the last \<open>update\<close> and whose \<open>session_start\<close> is the time of the first
  \<open>start\<close>: no later \<open>start\<close> has overwritten it.
\<close>

theorem start_update_sequence:
  assumes "fst (read_state w) = Inr (JObj [])" and "state_write_err w = None"
    and "\<forall>c \<in> set ((i1, t1) # ss). start_input (fst c)"
    and "py_int t1 \<noteq> 0"
    and "\<forall>c \<in> set (us @ [(iN, tN)]). update_input (fst c)"
  shows "\<exists>kvs. state_file (run_commands
            (map (\<lambda>(i, t). Start i t) ((i1, t1) # ss) @
             map (\<lambda>(i, t). Update i t) (us @ [(iN, tN)])) w) = Holds (JObj kvs) \<and>
           map_of kvs ''tool'' = Some (tool_name_of iN) \<and>
           map_of kvs ''session_start'' = Some (JInt (py_int t1))"
proof -
  let ?w1 = "run_command (Start i1 t1) w"
  let ?w2 = "fold run_command (map (\<lambda>(i, t). Start i t) ss) ?w1"
  let ?w3 = "fold run_command (map (\<lambda>(i, t). Update i t) us) ?w2"
  from assms have 1: "session_since (py_int t1) ?w1"
    by (simp add: first_start del: run_command.simps)
  from assms have 2: "session_since (py_int t1) ?w2"
    by (intro later_starts [OF 1]) auto
  from assms have 3: "session_since (py_int t1) ?w3"
    by (intro updates_keep [OF 2]) auto
  from assms have "update_input iN" by simp
  from an_update [OF this 3, of tN] show ?thesis
    by (simp add: run_commands_def)
qed

theorem start_update_sequence_witness:
  "fst (read_state world0) = Inr (JObj []) \<and> state_write_err world0 = None \<and>
   start_input (Parsed (JObj [(''cwd'', JStr ''/home/u/myproj'')])) \<and> start_input Blank \<and>
   py_int 1700000000 \<noteq> 0 \<and>
   update_input (Parsed (JObj [(''tool_name'', JStr ''Read'')])) \<and>
   update_input (Parsed (JObj [(''tool_name'', JStr ''Edit'')])) \<and>
   (\<exists>kvs. state_file (run_commands
       [Start (Parsed (JObj [(''cwd'', JStr ''/home/u/myproj'')])) 1700000000,
        Start Blank 1700000050,
        Update (Parsed (JObj [(''tool_name'', JStr ''Read'')])) 1700000060,
        Update (Parsed (JObj [(''tool_name'', JStr ''Edit'')])) 1700000070] world0)
      = Holds (JObj kvs) \<and>
      map_of kvs ''tool'' = Some (JStr ''Edit'') \<and>
      map_of kvs ''session_start'' = Some (JInt 1700000000))"
  using start_update_sequence [of world0
      "Parsed (JObj [(''cwd'', JStr ''/home/u/myproj'')])" 1700000000
      "[(Blank, 1700000050)]"
      "[(Parsed (JObj [(''tool_name'', JStr ''Read'')]), 1700000060)]"
      "Parsed (JObj [(''tool_name'', JStr ''Edit'')])" 1700000070]
  by (simp add: read_state_def world0_def start_input_def update_input_def tool_name_of_def
      py_int_def)

subsection \<open>Change detection\<close>



lemma publishes_simps [simp]:
  "publishes [] = 0"
  "publishes (RpcUpdate l p s # es) = Suc (publishes es)"
  "publishes (Sleep n # es) = publishes es"
  "publishes (es @ es') = publishes es + publishes es'"
  by (simp_all add: publishes_def)

lemma issued_append [simp]: "trace w' = trace w @ es \<Longrightarrow> issued w w' = es"
  by (simp add: issued_def)








lemma payload_other_label: "l' \<noteq> l \<Longrightarrow> payload_differs (l, p) (Some (l', p'))"
  by (simp add: payload_differs_def)
















lemma put_put [simp]: "put_state X (put_state Y w) = put_state X w"
  by (simp add: put_state_def)


lemma forget_put [simp]:
  "apsnd (apsnd (put_state Absent)) (apsnd (apsnd (put_state X)) t) =
   apsnd (apsnd (put_state Absent)) t"
  by (cases t) simp











lemma issued_put [simp]: "issued (w\<lparr>state_file := X\<rparr>) w' = issued w w'"
  by (simp add: issued_def)








end
